theory Spec2Isabelle
  imports Complex_Main
begin

section \<open>The vertex colour editor: data model\<close>

text \<open>
  The add-on (VertexColorEditor.py) reads and writes the per-corner colours of a mesh that
  is open in edit mode. The model below follows the objects the code touches: the edit
  mesh \<open>bm\<close> with its vertices, faces, face corners ("loops") and loop colour layers, the
  property group \<open>props\<close> of the scene, and the context the update handler inspects.

  A colour is the RGBA quadruple \<open>(color[0], color[1], color[2], color[3])\<close>. Channels
  are rational numbers: the code only copies, subtracts and compares them. What the colour
  layer keeps of a colour that is written to it is \<open>store_color\<close> below; the rounding of
  the host's floating-point numbers is not modelled.
\<close>

type_synonym color = "rat \<times> rat \<times> rat \<times> rat"

text \<open>
  A face corner (\<open>loop\<close>): \<open>loop.vert\<close> is the vertex it references (vertices are named
  by numbers) and \<open>loop[layer]\<close> is the colour it stores in the layer of that name.
\<close>

record loop =
  vert :: nat
  layer_data :: "string \<Rightarrow> color"

text \<open>
  The edit mesh: \<open>bm.verts\<close> in their native order, the flag \<open>v.select\<close> of every
  vertex, \<open>bm.faces\<close> (each face is the list \<open>face.loops\<close>), the names of the loop colour
  layers \<open>bm.loops.layers.color\<close>, and the name of the active one
  (\<open>bm.loops.layers.color.active\<close>, which the code reads only when the collection is not
  empty).
\<close>

record bmesh =
  verts :: "nat list"
  select :: "nat \<Rightarrow> bool"
  faces :: "loop list list"
  color_layers :: "string list"
  active_layer :: string

text \<open>
  \<open>VertexColorProperties\<close> (lines 103-119): the colour shown in the panel and the
  auto-pick switch, with their declared defaults.
\<close>

record props =
  vertex_color :: color
  auto_pick_color :: bool

definition default_props :: props where
  "default_props = \<lparr>vertex_color = (1, 1, 1, 1), auto_pick_color = False\<rparr>"

text \<open>
  \<open>vertex_color\<close> is declared with \<open>min=0.0, max=1.0\<close>: these are hard limits, and the
  host stores the limit when a value beyond it is assigned. Every assignment
  \<open>props.vertex_color = ...\<close> of the code goes through \<open>set_vertex_color\<close>.
\<close>

definition clamp01 :: "rat \<Rightarrow> rat" where
  "clamp01 x = max 0 (min 1 x)"

fun clamp_color :: "color \<Rightarrow> color" where
  "clamp_color (r, g, b, a) = (clamp01 r, clamp01 g, clamp01 b, clamp01 a)"

definition set_vertex_color :: "props \<Rightarrow> color \<Rightarrow> props" where
  "set_vertex_color p c = p\<lparr>vertex_color := clamp_color c\<rparr>"

fun valid_color :: "color \<Rightarrow> bool" where
  "valid_color (r, g, b, a) =
     (0 \<le> r \<and> r \<le> 1 \<and> 0 \<le> g \<and> g \<le> 1 \<and> 0 \<le> b \<and> b \<le> 1 \<and> 0 \<le> a \<and> a \<le> 1)"

text \<open>
  What the two operators work on once \<open>execute\<close> has bound \<open>bm\<close> (the edit mesh of the
  active object) and \<open>props\<close> (lines 28-32 and 76-80).
\<close>

record edit_state =
  bm :: bmesh
  props :: props

text \<open>
  The two warnings an operator reports before it returns \<open>CANCELLED\<close>: the mesh has no
  colour layer (line 86), no vertex is selected (lines 46 and 100).
\<close>

datatype error = NoColorData | NoSelection

section \<open>Mesh traversal\<close>

text \<open>\<open>[v for v in bm.verts if v.select]\<close> (line 43).\<close>

definition selected_verts :: "bmesh \<Rightarrow> nat list" where
  "selected_verts m = filter (select m) (verts m)"

text \<open>
  \<open>if not bm.loops.layers.color: bm.loops.layers.color.new("Col")\<close> (lines 37-38). The
  first layer of a collection becomes its active layer. A corner's colour in the new layer
  is the one \<open>layer_data\<close> holds under the layer's name (the host fills a new layer with
  white).
\<close>

definition layers_new :: "string \<Rightarrow> bmesh \<Rightarrow> bmesh" where
  "layers_new name m =
     m\<lparr>color_layers := color_layers m @ [name],
       active_layer := (if color_layers m = [] then name else active_layer m)\<rparr>"

definition ensure_color_layer :: "bmesh \<Rightarrow> bmesh" where
  "ensure_color_layer m = (if color_layers m = [] then layers_new ''Col'' m else m)"

text \<open>
  \<open>bm.loops.layers.color\<close> is the host's colour layer with 8 bits per channel. An
  assignment \<open>loop[color_layer] = c\<close> turns every channel into a byte: a channel of at
  most 0 gives 0, one above \<open>1 - 0.5/255\<close> gives 255, and any other gives
  \<open>255 c + 0.5\<close> cut off to a whole number. Reading \<open>loop[color_layer]\<close> gives the byte
  divided by 255. So a corner that is written \<open>0.5\<close> holds \<open>128/255\<close>.
\<close>

definition float_to_uchar :: "rat \<Rightarrow> nat" where
  "float_to_uchar x =
     (if x \<le> 0 then 0
      else if x > 1 - (1 / 2) / 255 then 255
      else nat \<lfloor>255 * x + 1 / 2\<rfloor>)"

definition uchar_to_float :: "nat \<Rightarrow> rat" where
  "uchar_to_float n = of_nat n / 255"

definition store_channel :: "rat \<Rightarrow> rat" where
  "store_channel x = uchar_to_float (float_to_uchar x)"

fun store_color :: "color \<Rightarrow> color" where
  "store_color (r, g, b, a) =
     (store_channel r, store_channel g, store_channel b, store_channel a)"

text \<open>
  The writing pass (lines 52-55): the inner loop over \<open>face.loops\<close> and the outer loop over
  \<open>bm.faces\<close>. \<open>loop[color_layer] = color_to_apply\<close> replaces the colour the corner stores
  in that layer by what the layer keeps of \<open>color_to_apply\<close>.
\<close>

definition write_loop :: "string \<Rightarrow> color \<Rightarrow> loop \<Rightarrow> loop" where
  "write_loop lay c l = l\<lparr>layer_data := (layer_data l)(lay := store_color c)\<rparr>"

fun apply_face :: "(nat \<Rightarrow> bool) \<Rightarrow> string \<Rightarrow> color \<Rightarrow> loop list \<Rightarrow> loop list" where
  "apply_face sel lay c [] = []"
| "apply_face sel lay c (l # ls) =
     (if sel (vert l) then write_loop lay c l else l) # apply_face sel lay c ls"

fun apply_faces :: "(nat \<Rightarrow> bool) \<Rightarrow> string \<Rightarrow> color \<Rightarrow> loop list list \<Rightarrow> loop list list" where
  "apply_faces sel lay c [] = []"
| "apply_faces sel lay c (f # fs) = apply_face sel lay c f # apply_faces sel lay c fs"

text \<open>
  The reading pass (lines 92-98 and 206-216): the same two loops, left at the first corner
  whose vertex is selected; \<open>None\<close> when the loops run to their end.
\<close>

fun first_in_face :: "(nat \<Rightarrow> bool) \<Rightarrow> loop list \<Rightarrow> loop option" where
  "first_in_face sel [] = None"
| "first_in_face sel (l # ls) = (if sel (vert l) then Some l else first_in_face sel ls)"

fun first_in_faces :: "(nat \<Rightarrow> bool) \<Rightarrow> loop list list \<Rightarrow> loop option" where
  "first_in_faces sel [] = None"
| "first_in_faces sel (f # fs) =
     (case first_in_face sel f of Some l \<Rightarrow> Some l | None \<Rightarrow> first_in_faces sel fs)"

section \<open>The operators\<close>

text \<open>
  \<open>MESH_OT_apply_vertex_color.execute\<close> (lines 36-61). The layer is created before the
  selection is looked at, so the mesh is returned in both outcomes. On success the
  operator reports \<open>len(selected_verts)\<close>. \<open>bmesh.update_edit_mesh\<close> tells the host to
  redisplay and changes nothing the model holds.
\<close>

definition apply_execute :: "edit_state \<Rightarrow> (error + nat) \<times> edit_state" where
  "apply_execute s =
     (let m = ensure_color_layer (bm s);
          color_layer = active_layer m;
          sv = selected_verts m
      in if sv = [] then (Inl NoSelection, s\<lparr>bm := m\<rparr>)
         else
           let color_to_apply = vertex_color (props s);
               m' = m\<lparr>faces := apply_faces (select m) color_layer color_to_apply (faces m)\<rparr>
           in (Inr (length sv), s\<lparr>bm := m'\<rparr>))"

text \<open>
  \<open>MESH_OT_get_vertex_color.execute\<close> (lines 84-101). On success the colour read is the
  one reported, and it is assigned to \<open>props.vertex_color\<close>.
\<close>

definition get_execute :: "edit_state \<Rightarrow> (error + color) \<times> edit_state" where
  "get_execute s =
     (if color_layers (bm s) = [] then (Inl NoColorData, s)
      else
        let color_layer = active_layer (bm s)
        in case first_in_faces (select (bm s)) (faces (bm s)) of
             Some l \<Rightarrow>
               let color = layer_data l color_layer
               in (Inr color, s\<lparr>props := set_vertex_color (props s) color\<rparr>)
           | None \<Rightarrow> (Inl NoSelection, s))"

section \<open>The selection update handler\<close>

text \<open>
  The handler reads \<open>context.mode\<close>, \<open>context.active_object\<close> (possibly \<open>None\<close>), the
  object's \<open>type\<close>, and asks the host for the edit mesh of \<open>obj.data\<close>;
  \<open>bmesh.from_edit_mesh\<close> raises when the object has none, which is \<open>edit_bmesh = None\<close>.
\<close>

record object =
  obj_type :: string
  edit_bmesh :: "bmesh option"

record blender_context =
  mode :: string
  active_object :: "object option"
  scene_props :: props

datatype exn = ValueError

text \<open>The comparison of lines 211-214; the threshold \<open>0.001\<close> is taken as \<open>1/1000\<close>.\<close>

fun differs :: "color \<Rightarrow> color \<Rightarrow> bool" where
  "differs (p0, p1, p2, p3) (c0, c1, c2, c3) =
     (\<bar>p0 - c0\<bar> > 1 / 1000 \<or> \<bar>p1 - c1\<bar> > 1 / 1000 \<or>
      \<bar>p2 - c2\<bar> > 1 / 1000 \<or> \<bar>p3 - c3\<bar> > 1 / 1000)"

text \<open>The body of the \<open>try\<close> block (lines 196-216): an exception or the new \<open>props\<close>.\<close>

definition handler_try :: "object \<Rightarrow> props \<Rightarrow> exn + props" where
  "handler_try obj p =
     (case edit_bmesh obj of
        None \<Rightarrow> Inl ValueError
      | Some m \<Rightarrow>
          if color_layers m = [] then Inr p
          else
            let color_layer = active_layer m
            in case first_in_faces (select m) (faces m) of
                 Some l \<Rightarrow>
                   let color = layer_data l color_layer
                   in if differs (vertex_color p) color
                      then Inr (set_vertex_color p color) else Inr p
               | None \<Rightarrow> Inr p)"

text \<open>
  \<open>selection_update_handler\<close> (lines 179-218): the two early returns, then the \<open>try\<close>
  block whose \<open>except: pass\<close> drops every exception.
\<close>

definition selection_update_handler :: "blender_context \<Rightarrow> blender_context" where
  "selection_update_handler ctx =
     (let p = scene_props ctx
      in if \<not> auto_pick_color p then ctx
         else case active_object ctx of
                None \<Rightarrow> ctx
              | Some obj \<Rightarrow>
                  if mode ctx \<noteq> ''EDIT_MESH'' \<or> obj_type obj \<noteq> ''MESH'' then ctx
                  else case handler_try obj p of
                         Inl e \<Rightarrow> ctx
                       | Inr p' \<Rightarrow> ctx\<lparr>scene_props := p'\<rparr>)"

section \<open>Example meshes\<close>

text \<open>
  Two triangles that share vertex 0, which is the only selected vertex; the mesh has no
  colour layer yet, and a layer that is created starts out white on every corner. Variants
  of it have nothing selected, or a current colour that no byte represents.
\<close>

definition corner :: "nat \<Rightarrow> color \<Rightarrow> loop" where
  "corner v c = \<lparr>vert = v, layer_data = (\<lambda>_. c)\<rparr>"

definition black :: color where
  "black = (0, 0, 0, 1)"

definition white :: color where
  "white = (1, 1, 1, 1)"

definition shared_vertex_mesh :: bmesh where
  "shared_vertex_mesh =
     \<lparr>verts = [0, 1, 2, 3], select = (\<lambda>v. v = 0),
      faces = [[corner 0 white, corner 1 white, corner 2 white],
               [corner 0 white, corner 2 white, corner 3 white]],
      color_layers = [], active_layer = []\<rparr>"

definition shared_vertex_state :: edit_state where
  "shared_vertex_state =
     \<lparr>bm = shared_vertex_mesh,
      props = \<lparr>vertex_color = (1 / 5, 2 / 5, 3 / 5, 1), auto_pick_color = False\<rparr>\<rparr>"


definition nothing_selected_state :: edit_state where
  "nothing_selected_state =
     \<lparr>bm = shared_vertex_mesh\<lparr>select := (\<lambda>v. False)\<rparr>, props = default_props\<rparr>"

definition nothing_selected_layer_state :: edit_state where
  "nothing_selected_layer_state =
     \<lparr>bm = shared_vertex_mesh\<lparr>select := (\<lambda>v. False), color_layers := [''Col''],
            active_layer := ''Col''\<rparr>,
      props = default_props\<rparr>"

text \<open>Two colours for the examples.\<close>

definition red :: color where
  "red = (1, 0, 0, 1)"

definition blue :: color where
  "blue = (0, 0, 1, 1)"

text \<open>
  A single selected vertex that belongs to no face: the mesh has a colour layer and no
  corner at all.
\<close>

definition loose_vertex_state :: edit_state where
  "loose_vertex_state =
     \<lparr>bm = \<lparr>verts = [0], select = (\<lambda>v. v = 0), faces = [],
             color_layers = [''Col''], active_layer = ''Col''\<rparr>,
      props = \<lparr>vertex_color = (1 / 5, 2 / 5, 3 / 5, 1), auto_pick_color = False\<rparr>\<rparr>"

text \<open>
  A triangle and two vertices of no face; one vertex of the triangle and both loose
  vertices are selected.
\<close>

definition loose_selected_state :: edit_state where
  "loose_selected_state =
     \<lparr>bm = \<lparr>verts = [0, 1, 2, 3, 4], select = (\<lambda>v. v = 0 \<or> v = 3 \<or> v = 4),
             faces = [[corner 0 white, corner 1 white, corner 2 white]],
             color_layers = [''Col''], active_layer = ''Col''\<rparr>,
      props = \<lparr>vertex_color = (1 / 5, 2 / 5, 3 / 5, 1), auto_pick_color = False\<rparr>\<rparr>"

text \<open>One triangle whose second and third corners are selected and differ in colour.\<close>

definition two_colors_state :: edit_state where
  "two_colors_state =
     \<lparr>bm = \<lparr>verts = [0, 1, 2], select = (\<lambda>v. v = 1 \<or> v = 2),
             faces = [[corner 0 black, corner 1 red, corner 2 blue]],
             color_layers = [''Col''], active_layer = ''Col''\<rparr>,
      props = default_props\<rparr>"

text \<open>A corner that stores a colour outside the range of \<open>vertex_color\<close>.\<close>

definition overbright_state :: edit_state where
  "overbright_state =
     \<lparr>bm = \<lparr>verts = [0], select = (\<lambda>v. v = 0), faces = [[corner 0 (2, - 1, 1 / 2, 1)]],
             color_layers = [''Col''], active_layer = ''Col''\<rparr>,
      props = default_props\<rparr>"

text \<open>
  Contexts for the handler, all with auto-pick switched on and a mesh object in edit mode:
  over the two-colour mesh, over an object whose edit mesh the host cannot hand out, and
  over the mesh with the out-of-range colour.
\<close>

definition picking_context :: blender_context where
  "picking_context =
     \<lparr>mode = ''EDIT_MESH'',
      active_object = Some \<lparr>obj_type = ''MESH'', edit_bmesh = Some (bm two_colors_state)\<rparr>,
      scene_props = \<lparr>vertex_color = (1, 1, 1, 1), auto_pick_color = True\<rparr>\<rparr>"

definition no_edit_mesh_context :: blender_context where
  "no_edit_mesh_context =
     \<lparr>mode = ''EDIT_MESH'',
      active_object = Some \<lparr>obj_type = ''MESH'', edit_bmesh = None\<rparr>,
      scene_props = \<lparr>vertex_color = (1, 1, 1, 1), auto_pick_color = True\<rparr>\<rparr>"

definition overbright_context :: blender_context where
  "overbright_context =
     \<lparr>mode = ''EDIT_MESH'',
      active_object = Some \<lparr>obj_type = ''MESH'', edit_bmesh = Some (bm overbright_state)\<rparr>,
      scene_props = \<lparr>vertex_color = (1, 1, 1, 1), auto_pick_color = True\<rparr>\<rparr>"

section \<open>Well-formed meshes\<close>

text \<open>
  In a mesh every corner references one of the vertices of \<open>bm.verts\<close>. The operators
  never change this; it is what links "no vertex is selected" to "no corner has a selected
  vertex".
\<close>

definition corners_in_verts :: "bmesh \<Rightarrow> bool" where
  "corners_in_verts m = list_all (list_all (\<lambda>l. vert l \<in> set (verts m))) (faces m)"

section \<open>Notions used in the statements\<close>




text \<open>
  The selected vertices the writing pass reaches: those that are the vertex of at least one
  face corner.
\<close>

definition touched_verts :: "bmesh \<Rightarrow> nat list" where
  "touched_verts m = filter (\<lambda>v. v \<in> set (map vert (concat (faces m)))) (selected_verts m)"

section \<open>What the colour layer keeps\<close>








section \<open>The traversals as list functions\<close>

lemma apply_face_map:
  "apply_face sel lay c ls = map (\<lambda>l. if sel (vert l) then write_loop lay c l else l) ls"
  by (induction ls) simp_all

lemma apply_faces_map:
  "apply_faces sel lay c fs = map (apply_face sel lay c) fs"
  by (induction fs) simp_all

lemma first_in_face_find:
  "first_in_face sel ls = find (\<lambda>l. sel (vert l)) ls"
  by (induction ls) simp_all

lemma find_app:
  "find P (xs @ ys) = (case find P xs of None \<Rightarrow> find P ys | Some x \<Rightarrow> Some x)"
  by (induction xs) simp_all

lemma first_in_faces_find:
  "first_in_faces sel fs = find (\<lambda>l. sel (vert l)) (concat fs)"
proof (induction fs)
  case Nil
  show ?case by simp
next
  case (Cons f fs)
  show ?case
  proof (cases "find (\<lambda>l. sel (vert l)) f")
    case None
    then show ?thesis using Cons by (simp add: first_in_face_find find_app split: option.splits)
  next
    case (Some l)
    then show ?thesis by (simp add: first_in_face_find find_app split: option.splits)
  qed
qed

lemma ensure_color_layer_fields:
  "verts (ensure_color_layer m) = verts m"
  "select (ensure_color_layer m) = select m"
  "faces (ensure_color_layer m) = faces m"
  "color_layers (ensure_color_layer m) \<noteq> []"
  by (simp_all add: ensure_color_layer_def layers_new_def)

lemma selected_verts_ensure:
  "selected_verts (ensure_color_layer m) = selected_verts m"
  by (simp add: selected_verts_def ensure_color_layer_fields)

lemma clamp_color_valid: "valid_color (clamp_color c)"
  by (cases c) (simp add: clamp01_def)

lemma clamp_color_id: "valid_color c \<Longrightarrow> clamp_color c = c"
  by (cases c) (simp add: clamp01_def)

lemma not_differs_self: "\<not> differs c c"
  by (cases c) simp

lemma write_loop_simps:
  "vert (write_loop lay c l) = vert l"
  "layer_data (write_loop lay c l) lay = store_color c"
  by (simp_all add: write_loop_def)

lemma apply_execute_success:
  assumes "selected_verts (bm s) \<noteq> []"
  shows "apply_execute s =
           (Inr (length (selected_verts (bm s))),
            s\<lparr>bm := (ensure_color_layer (bm s))
                 \<lparr>faces := map (map (\<lambda>l. if select (bm s) (vert l)
                                          then write_loop (active_layer (ensure_color_layer (bm s)))
                                                 (vertex_color (props s)) l
                                          else l)) (faces (bm s))\<rparr>\<rparr>)"
proof -
  have "apply_face sel lay c = map (\<lambda>l. if sel (vert l) then write_loop lay c l else l)"
    for sel lay c
    by (rule ext) (rule apply_face_map)
  then show ?thesis
    using assms
    by (simp add: apply_execute_def Let_def selected_verts_ensure ensure_color_layer_fields
        apply_faces_map)
qed

lemma apply_execute_cancelled:
  assumes "selected_verts (bm s) = []"
  shows "apply_execute s = (Inl NoSelection, s\<lparr>bm := ensure_color_layer (bm s)\<rparr>)"
  using assms by (simp add: apply_execute_def Let_def selected_verts_ensure)


lemma find_None_unselected:
  assumes "corners_in_verts m" and "selected_verts m = []"
  shows "find (\<lambda>l. select m (vert l)) (concat (faces m)) = None"
proof -
  have "\<not> select m (vert l)" if "l \<in> set (concat (faces m))" for l
  proof -
    from that assms(1) have "vert l \<in> set (verts m)"
      by (auto simp: corners_in_verts_def list_all_iff)
    with assms(2) show ?thesis
      by (auto simp: selected_verts_def filter_empty_conv)
  qed
  then show ?thesis by (auto simp: find_None_iff)
qed

lemma get_execute_found:
  assumes "color_layers (bm s) \<noteq> []"
    and "find (\<lambda>l. select (bm s) (vert l)) (concat (faces (bm s))) = Some l"
  shows "get_execute s =
           (Inr (layer_data l (active_layer (bm s))),
            s\<lparr>props := set_vertex_color (props s) (layer_data l (active_layer (bm s)))\<rparr>)"
  using assms by (simp add: get_execute_def Let_def first_in_faces_find)

lemma get_execute_not_found:
  assumes "color_layers (bm s) \<noteq> []"
    and "find (\<lambda>l. select (bm s) (vert l)) (concat (faces (bm s))) = None"
  shows "get_execute s = (Inl NoSelection, s)"
  using assms by (simp add: get_execute_def Let_def first_in_faces_find)

lemma get_execute_no_layer:
  assumes "color_layers (bm s) = []"
  shows "get_execute s = (Inl NoColorData, s)"
  using assms by (simp add: get_execute_def)

lemma clamp_color_idem: "clamp_color (clamp_color c) = clamp_color c"
  by (simp add: clamp_color_id clamp_color_valid)

lemma set_vertex_color_simps:
  "vertex_color (set_vertex_color p c) = clamp_color c"
  "auto_pick_color (set_vertex_color p c) = auto_pick_color p"
  "set_vertex_color (set_vertex_color p c) c = set_vertex_color p c"
  by (simp_all add: set_vertex_color_def)

text \<open>The handler either leaves the context alone or assigns the colour it read.\<close>

lemma handler_cases:
  "selection_update_handler ctx = ctx \<or>
   (\<exists>obj m l. auto_pick_color (scene_props ctx) \<and> mode ctx = ''EDIT_MESH'' \<and>
      active_object ctx = Some obj \<and> obj_type obj = ''MESH'' \<and> edit_bmesh obj = Some m \<and>
      color_layers m \<noteq> [] \<and> first_in_faces (select m) (faces m) = Some l \<and>
      differs (vertex_color (scene_props ctx)) (layer_data l (active_layer m)) \<and>
      selection_update_handler ctx =
        ctx\<lparr>scene_props := set_vertex_color (scene_props ctx) (layer_data l (active_layer m))\<rparr>)"
  by (auto simp: selection_update_handler_def handler_try_def Let_def
      split: option.splits sum.splits if_splits)

lemma handler_found:
  assumes "auto_pick_color (scene_props ctx)" and "mode ctx = ''EDIT_MESH''"
    and "active_object ctx = Some obj" and "obj_type obj = ''MESH''"
    and "edit_bmesh obj = Some m" and "color_layers m \<noteq> []"
    and "first_in_faces (select m) (faces m) = Some l"
  shows "selection_update_handler ctx =
           (if differs (vertex_color (scene_props ctx)) (layer_data l (active_layer m))
            then ctx\<lparr>scene_props :=
                       set_vertex_color (scene_props ctx) (layer_data l (active_layer m))\<rparr>
            else ctx)"
  using assms by (simp add: selection_update_handler_def handler_try_def Let_def)

lemma handler_idem:
  "selection_update_handler (selection_update_handler ctx) = selection_update_handler ctx"
proof -
  from handler_cases [of ctx] show ?thesis
  proof
    assume "selection_update_handler ctx = ctx"
    then show ?thesis by simp
  next
    assume "\<exists>obj m l. auto_pick_color (scene_props ctx) \<and> mode ctx = ''EDIT_MESH'' \<and>
      active_object ctx = Some obj \<and> obj_type obj = ''MESH'' \<and> edit_bmesh obj = Some m \<and>
      color_layers m \<noteq> [] \<and> first_in_faces (select m) (faces m) = Some l \<and>
      differs (vertex_color (scene_props ctx)) (layer_data l (active_layer m)) \<and>
      selection_update_handler ctx =
        ctx\<lparr>scene_props := set_vertex_color (scene_props ctx) (layer_data l (active_layer m))\<rparr>"
    then obtain obj m l where h:
      "auto_pick_color (scene_props ctx)" "mode ctx = ''EDIT_MESH''"
      "active_object ctx = Some obj" "obj_type obj = ''MESH''" "edit_bmesh obj = Some m"
      "color_layers m \<noteq> []" "first_in_faces (select m) (faces m) = Some l"
      and e: "selection_update_handler ctx =
        ctx\<lparr>scene_props := set_vertex_color (scene_props ctx) (layer_data l (active_layer m))\<rparr>"
      by blast
    let ?c = "layer_data l (active_layer m)"
    let ?ctx' = "ctx\<lparr>scene_props := set_vertex_color (scene_props ctx) ?c\<rparr>"
    have "selection_update_handler ?ctx' = ?ctx'"
      using h by (simp add: handler_found [where obj = obj and m = m and l = l]
          set_vertex_color_simps)
    with e show ?thesis by simp
  qed
qed

section \<open>Apply\<close>




text \<open>
  C8, as stated, fails: with the triangle vertex and the two loose vertices selected, Apply
  reports 3 vertices, while only one of them has a corner and a single corner is written.
\<close>

theorem apply_counts_loose_vertices:
  "fst (apply_execute loose_selected_state) = Inr 3 \<and>
   touched_verts (bm loose_selected_state) = [0] \<and>
   length (filter (\<lambda>l. select (bm loose_selected_state) (vert l))
             (concat (faces (bm loose_selected_state)))) = 1"
proof -
  have sel: "selected_verts (bm loose_selected_state) = [0, 3, 4]"
    by (simp add: loose_selected_state_def selected_verts_def)
  then have sel': "selected_verts (bm loose_selected_state) \<noteq> []"
    by simp
  have a: "fst (apply_execute loose_selected_state) = Inr 3"
    by (simp add: apply_execute_success [OF sel'] sel)
  have b: "touched_verts (bm loose_selected_state) = [0]"
    unfolding touched_verts_def sel
    by (simp add: loose_selected_state_def corner_def)
  have c: "length (filter (\<lambda>l. select (bm loose_selected_state) (vert l))
             (concat (faces (bm loose_selected_state)))) = 1"
    by (simp add: loose_selected_state_def corner_def)
  from a b c show ?thesis by simp
qed

text \<open>
  C8, amended. A successful Apply reports the number of selected vertices of the mesh,
  \<open>len(selected_verts)\<close>, whatever the faces are: it is not the number of corners written,
  and a vertex shared by two faces counts once although two corners are written. Every
  selected vertex that has a corner is touched, that is, one of its corners holds what the
  layer keeps of the current colour afterwards; the vertices touched are among the ones
  counted, and they are all of them when every selected vertex has a corner.
\<close>

theorem apply_reports_vertex_count:
  assumes "selected_verts (bm s) \<noteq> []" and "apply_execute s = (r, s')"
  shows "r = Inr (length (filter (select (bm s)) (verts (bm s)))) \<and>
         fst (apply_execute (s\<lparr>bm := (bm s)\<lparr>faces := fs\<rparr>\<rparr>)) = r \<and>
         length (touched_verts (bm s)) \<le> length (selected_verts (bm s)) \<and>
         (list_all (\<lambda>v. v \<in> set (map vert (concat (faces (bm s))))) (selected_verts (bm s)) \<longrightarrow>
            touched_verts (bm s) = selected_verts (bm s)) \<and>
         (\<forall>v \<in> set (touched_verts (bm s)).
            \<exists>l \<in> set (concat (faces (bm s'))).
              vert l = v \<and>
              layer_data l (active_layer (bm s')) = store_color (vertex_color (props s)))"
proof -
  let ?m = "ensure_color_layer (bm s)"
  let ?w = "\<lambda>l. if select (bm s) (vert l)
                 then write_loop (active_layer ?m) (vertex_color (props s)) l else l"
  have s': "s' = s\<lparr>bm := ?m\<lparr>faces := map (map ?w) (faces (bm s))\<rparr>\<rparr>"
    and r: "r = Inr (length (selected_verts (bm s)))"
    using assms by (simp_all add: apply_execute_success)
  have a: "r = Inr (length (filter (select (bm s)) (verts (bm s))))"
    using r by (simp add: selected_verts_def)
  have "selected_verts ((bm s)\<lparr>faces := fs\<rparr>) = selected_verts (bm s)"
    by (simp add: selected_verts_def)
  with assms(1) r have b: "fst (apply_execute (s\<lparr>bm := (bm s)\<lparr>faces := fs\<rparr>\<rparr>)) = r"
    by (simp add: apply_execute_success)
  have c: "length (touched_verts (bm s)) \<le> length (selected_verts (bm s))"
    by (simp add: touched_verts_def)
  have d: "list_all (\<lambda>v. v \<in> set (map vert (concat (faces (bm s))))) (selected_verts (bm s)) \<longrightarrow>
            touched_verts (bm s) = selected_verts (bm s)"
    by (simp add: touched_verts_def list_all_iff)
  have e: "\<exists>l \<in> set (concat (faces (bm s'))).
              vert l = v \<and>
              layer_data l (active_layer (bm s')) = store_color (vertex_color (props s))"
    if "v \<in> set (touched_verts (bm s))" for v
  proof -
    from that have sv: "select (bm s) v"
      by (simp add: touched_verts_def selected_verts_def)
    from that obtain l where l: "l \<in> set (concat (faces (bm s)))" and lv: "vert l = v"
      by (auto simp: touched_verts_def)
    have cs: "concat (faces (bm s')) = map ?w (concat (faces (bm s)))"
      by (simp add: s' map_concat)
    have "?w l \<in> set (concat (faces (bm s')))"
      unfolding cs using l by simp
    moreover have "vert (?w l) = v"
      using lv by (simp add: write_loop_simps)
    moreover have "layer_data (?w l) (active_layer (bm s')) =
        store_color (vertex_color (props s))"
      using sv lv by (simp add: s' write_loop_simps)
    ultimately show ?thesis by blast
  qed
  from a b c d e show ?thesis by blast
qed

theorem apply_reports_vertex_count_witness:
  "selected_verts (bm shared_vertex_state) \<noteq> [] \<and>
   fst (apply_execute shared_vertex_state) = Inr 1 \<and>
   touched_verts (bm shared_vertex_state) = [0] \<and>
   length (filter (\<lambda>l. select (bm shared_vertex_state) (vert l))
             (concat (faces (bm shared_vertex_state)))) = 2"
proof -
  let ?s = shared_vertex_state
  have sel: "selected_verts (bm ?s) \<noteq> []"
    by (simp add: shared_vertex_state_def shared_vertex_mesh_def selected_verts_def)
  have ex: "apply_execute ?s = (fst (apply_execute ?s), snd (apply_execute ?s))"
    by simp
  have a: "fst (apply_execute ?s) = Inr 1"
    using apply_reports_vertex_count [OF sel ex]
    by (simp add: shared_vertex_state_def shared_vertex_mesh_def)
  have b: "touched_verts (bm ?s) = [0]"
    by (simp add: touched_verts_def selected_verts_def shared_vertex_state_def
        shared_vertex_mesh_def corner_def)
  have c: "length (filter (\<lambda>l. select (bm ?s) (vert l)) (concat (faces (bm ?s)))) = 2"
    by (simp add: shared_vertex_state_def shared_vertex_mesh_def corner_def)
  from sel a b c show ?thesis by simp
qed

text \<open>
  C3, as stated, fails: Apply with nothing selected on a mesh without a colour layer
  reports "no selection" and still leaves the new layer \<open>Col\<close> on the mesh.
\<close>

theorem apply_cancelled_creates_layer:
  "selected_verts (bm nothing_selected_state) = [] \<and>
   fst (apply_execute nothing_selected_state) = Inl NoSelection \<and>
   color_layers (bm nothing_selected_state) = [] \<and>
   color_layers (bm (snd (apply_execute nothing_selected_state))) = [''Col'']"
proof -
  have sel: "selected_verts (bm nothing_selected_state) = []"
    by (simp add: nothing_selected_state_def shared_vertex_mesh_def selected_verts_def)
  show ?thesis
    using sel
    by (simp add: apply_execute_cancelled)
       (simp add: nothing_selected_state_def shared_vertex_mesh_def ensure_color_layer_def
          layers_new_def)
qed

text \<open>
  C3, amended. Apply with nothing selected fails with \<open>NoSelection\<close> and changes no corner,
  no vertex, no selection flag and not the current colour. When the mesh already has a
  colour layer nothing changes at all; when it has none, the layer \<open>Col\<close> is created and
  made active.
\<close>

theorem apply_cancelled_keeps_colors:
  assumes "selected_verts (bm s) = []" and "apply_execute s = (r, s')"
  shows "r = Inl NoSelection \<and> props s' = props s \<and>
         faces (bm s') = faces (bm s) \<and> verts (bm s') = verts (bm s) \<and>
         select (bm s') = select (bm s) \<and>
         (if color_layers (bm s) = []
          then color_layers (bm s') = [''Col''] \<and> active_layer (bm s') = ''Col''
          else s' = s)"
  using assms
  by (auto simp: apply_execute_cancelled ensure_color_layer_def layers_new_def)

theorem apply_cancelled_keeps_colors_witness:
  "selected_verts (bm nothing_selected_layer_state) = [] \<and>
   color_layers (bm nothing_selected_layer_state) = [''Col''] \<and>
   apply_execute nothing_selected_layer_state = (Inl NoSelection, nothing_selected_layer_state)"
proof -
  have sel: "selected_verts (bm nothing_selected_layer_state) = []"
    by (simp add: nothing_selected_layer_state_def shared_vertex_mesh_def selected_verts_def)
  have lay: "color_layers (bm nothing_selected_layer_state) = [''Col'']"
    by (simp add: nothing_selected_layer_state_def shared_vertex_mesh_def)
  have ex: "apply_execute nothing_selected_layer_state =
      (fst (apply_execute nothing_selected_layer_state),
       snd (apply_execute nothing_selected_layer_state))"
    by simp
  from apply_cancelled_keeps_colors [OF sel ex] lay
  have "fst (apply_execute nothing_selected_layer_state) = Inl NoSelection"
    and "snd (apply_execute nothing_selected_layer_state) = nothing_selected_layer_state"
    by simp_all
  with ex sel lay show ?thesis by simp
qed

text \<open>
  C10. After Apply, successful or not, the mesh has a colour layer: the layers are those it
  had, or the single layer \<open>Col\<close> when it had none. Get on the resulting state does not
  fail with \<open>NoColorData\<close>.
\<close>

theorem apply_leaves_color_layer:
  assumes "apply_execute s = (r, s')"
  shows "color_layers (bm s') \<noteq> [] \<and>
         (if color_layers (bm s) = [] then color_layers (bm s') = [''Col'']
          else color_layers (bm s') = color_layers (bm s)) \<and>
         fst (get_execute s') \<noteq> Inl NoColorData"
proof -
  have l: "color_layers (bm s') = color_layers (ensure_color_layer (bm s))"
    using assms
    by (cases "selected_verts (bm s) = []")
       (auto simp: apply_execute_cancelled apply_execute_success)
  have n: "color_layers (bm s') \<noteq> []"
    by (simp add: l ensure_color_layer_fields)
  have g: "fst (get_execute s') \<noteq> Inl NoColorData"
    using n by (simp add: get_execute_def Let_def split: option.splits)
  from l n g show ?thesis
    by (simp add: ensure_color_layer_def layers_new_def)
qed

theorem apply_leaves_color_layer_witness:
  "color_layers (bm nothing_selected_state) = [] \<and>
   fst (apply_execute nothing_selected_state) = Inl NoSelection \<and>
   color_layers (bm (snd (apply_execute nothing_selected_state))) = [''Col''] \<and>
   fst (get_execute (snd (apply_execute nothing_selected_state))) = Inl NoSelection"
proof -
  let ?s = nothing_selected_state
  have sel: "selected_verts (bm ?s) = []"
    by (simp add: nothing_selected_state_def shared_vertex_mesh_def selected_verts_def)
  have lay: "color_layers (bm ?s) = []"
    by (simp add: nothing_selected_state_def shared_vertex_mesh_def)
  have ex: "apply_execute ?s = (fst (apply_execute ?s), snd (apply_execute ?s))"
    by simp
  have c: "color_layers (bm (snd (apply_execute ?s))) = [''Col'']"
    using apply_leaves_color_layer [OF ex] lay by simp
  have r: "fst (apply_execute ?s) = Inl NoSelection"
    using sel by (simp add: apply_execute_cancelled)
  have g: "fst (get_execute (snd (apply_execute ?s))) = Inl NoSelection"
    using sel
    by (simp add: apply_execute_cancelled)
       (simp add: get_execute_def nothing_selected_state_def shared_vertex_mesh_def
          ensure_color_layer_def layers_new_def)
  from lay r c g show ?thesis by simp
qed

section \<open>Get\<close>

text \<open>
  C4, as stated, fails: a mesh with a colour layer whose only selected vertex belongs to no
  face has a selected vertex and no corner to read, and Get reports "no selection".
\<close>

theorem get_loose_vertex_no_color:
  "color_layers (bm loose_vertex_state) \<noteq> [] \<and>
   selected_verts (bm loose_vertex_state) = [0] \<and>
   get_execute loose_vertex_state = (Inl NoSelection, loose_vertex_state)"
  by (simp add: get_execute_def loose_vertex_state_def selected_verts_def)

text \<open>
  C4, amended. When the mesh has a colour layer and \<open>l\<close> is the first corner, in face order
  and then corner order, whose vertex is selected, Get returns the colour \<open>l\<close> stores in the
  active layer and nothing else: the current colour becomes that colour (within the limits
  of the property), and the mesh is unchanged. In the example two selected corners differ
  in colour and the first one is returned.
\<close>

theorem get_returns_first_selected_corner:
  assumes "color_layers (bm s) \<noteq> []"
    and "find (\<lambda>l. select (bm s) (vert l)) (concat (faces (bm s))) = Some l"
    and "get_execute s = (r, s')"
  shows "r = Inr (layer_data l (active_layer (bm s))) \<and>
         vertex_color (props s') = clamp_color (layer_data l (active_layer (bm s))) \<and>
         auto_pick_color (props s') = auto_pick_color (props s) \<and>
         bm s' = bm s"
  using assms by (auto simp: get_execute_found set_vertex_color_def)

theorem get_returns_first_selected_corner_witness:
  "color_layers (bm two_colors_state) \<noteq> [] \<and>
   find (\<lambda>l. select (bm two_colors_state) (vert l)) (concat (faces (bm two_colors_state))) =
     Some (corner 1 red) \<and>
   fst (get_execute two_colors_state) = Inr red \<and>
   vertex_color (props (snd (get_execute two_colors_state))) = red"
proof -
  let ?s = two_colors_state
  have lay: "color_layers (bm ?s) \<noteq> []"
    by (simp add: two_colors_state_def)
  have fnd: "find (\<lambda>l. select (bm ?s) (vert l)) (concat (faces (bm ?s))) = Some (corner 1 red)"
    by (simp add: two_colors_state_def corner_def)
  have ex: "get_execute ?s = (fst (get_execute ?s), snd (get_execute ?s))"
    by simp
  have "fst (get_execute ?s) = Inr red"
    and "vertex_color (props (snd (get_execute ?s))) = red"
    using get_returns_first_selected_corner [OF lay fnd ex]
    by (simp_all add: corner_def red_def clamp01_def)
  with lay fnd show ?thesis by simp
qed




text \<open>
  C6. Get fails with \<open>NoColorData\<close> when the mesh has no colour layer and with
  \<open>NoSelection\<close> when it has one and no vertex is selected; whenever it fails the state is
  the one it started from, so the current colour changes only on success; the mesh is never
  changed.
\<close>

theorem get_failures_mutate_nothing:
  "(color_layers (bm s) = [] \<longrightarrow> get_execute s = (Inl NoColorData, s)) \<and>
   (color_layers (bm s) \<noteq> [] \<and> selected_verts (bm s) = [] \<and> corners_in_verts (bm s) \<longrightarrow>
      get_execute s = (Inl NoSelection, s)) \<and>
   (\<forall>e. fst (get_execute s) = Inl e \<longrightarrow> snd (get_execute s) = s) \<and>
   bm (snd (get_execute s)) = bm s"
proof -
  have a: "color_layers (bm s) = [] \<longrightarrow> get_execute s = (Inl NoColorData, s)"
    by (simp add: get_execute_no_layer)
  have b: "color_layers (bm s) \<noteq> [] \<and> selected_verts (bm s) = [] \<and> corners_in_verts (bm s) \<longrightarrow>
      get_execute s = (Inl NoSelection, s)"
    by (simp add: get_execute_not_found find_None_unselected)
  have c: "\<forall>e. fst (get_execute s) = Inl e \<longrightarrow> snd (get_execute s) = s"
    by (simp add: get_execute_def Let_def split: option.splits)
  have d: "bm (snd (get_execute s)) = bm s"
    by (simp add: get_execute_def Let_def split: option.splits)
  from a b c d show ?thesis by blast
qed

theorem get_failures_mutate_nothing_witness:
  "color_layers (bm shared_vertex_state) = [] \<and>
   get_execute shared_vertex_state = (Inl NoColorData, shared_vertex_state) \<and>
   color_layers (bm nothing_selected_layer_state) \<noteq> [] \<and>
   selected_verts (bm nothing_selected_layer_state) = [] \<and>
   corners_in_verts (bm nothing_selected_layer_state) \<and>
   get_execute nothing_selected_layer_state = (Inl NoSelection, nothing_selected_layer_state)"
proof -
  have a: "color_layers (bm shared_vertex_state) = []"
    by (simp add: shared_vertex_state_def shared_vertex_mesh_def)
  have b: "color_layers (bm nothing_selected_layer_state) \<noteq> []"
    and c: "selected_verts (bm nothing_selected_layer_state) = []"
    and d: "corners_in_verts (bm nothing_selected_layer_state)"
    by (simp_all add: nothing_selected_layer_state_def shared_vertex_mesh_def
        selected_verts_def corners_in_verts_def corner_def)
  from a b c d get_failures_mutate_nothing [of shared_vertex_state]
    get_failures_mutate_nothing [of nothing_selected_layer_state]
  show ?thesis by blast
qed

section \<open>The handler\<close>

text \<open>
  C1. However often the handler runs on an unchanged mesh and selection, the context after
  the first run is the context after every later run. When it compares the colour of the
  first matching corner, and that colour lies within \<open>[0, 1]\<close>, the current colour after
  the first run is within the threshold of it on every channel, which is why the later
  runs do not assign. The handler changes the context only when some channel of the
  current colour differs from that corner's colour by more than the threshold.
\<close>

theorem handler_mutates_at_most_once:
  "(selection_update_handler ^^ Suc n) ctx = selection_update_handler ctx \<and>
   (auto_pick_color (scene_props ctx) \<and> mode ctx = ''EDIT_MESH'' \<and>
    active_object ctx = Some obj \<and> obj_type obj = ''MESH'' \<and> edit_bmesh obj = Some m \<and>
    color_layers m \<noteq> [] \<and>
    find (\<lambda>l. select m (vert l)) (concat (faces m)) = Some l \<and>
    valid_color (layer_data l (active_layer m)) \<longrightarrow>
      \<not> differs (vertex_color (scene_props (selection_update_handler ctx)))
          (layer_data l (active_layer m))) \<and>
   (selection_update_handler ctx \<noteq> ctx \<longrightarrow>
      (\<exists>obj' m' l'. active_object ctx = Some obj' \<and> edit_bmesh obj' = Some m' \<and>
         find (\<lambda>l. select m' (vert l)) (concat (faces m')) = Some l' \<and>
         differs (vertex_color (scene_props ctx)) (layer_data l' (active_layer m'))))"
proof -
  have "(selection_update_handler ^^ Suc n) ctx = selection_update_handler ctx"
  proof (induction n)
    case 0
    show ?case by simp
  next
    case (Suc n)
    have "(selection_update_handler ^^ Suc (Suc n)) ctx =
            selection_update_handler ((selection_update_handler ^^ Suc n) ctx)"
      by simp
    also have "\<dots> = selection_update_handler (selection_update_handler ctx)"
      by (simp only: Suc.IH)
    also have "\<dots> = selection_update_handler ctx"
      by (rule handler_idem)
    finally show ?case .
  qed
  moreover have "\<not> differs (vertex_color (scene_props (selection_update_handler ctx)))
          (layer_data l (active_layer m))"
    if "auto_pick_color (scene_props ctx)" "mode ctx = ''EDIT_MESH''"
      "active_object ctx = Some obj" "obj_type obj = ''MESH''" "edit_bmesh obj = Some m"
      "color_layers m \<noteq> []" "find (\<lambda>l. select m (vert l)) (concat (faces m)) = Some l"
      "valid_color (layer_data l (active_layer m))"
  proof -
    have f: "first_in_faces (select m) (faces m) = Some l"
      using that(7) by (simp add: first_in_faces_find)
    show ?thesis
      using that(8)
      by (simp add: handler_found [OF that(1-6) f] set_vertex_color_simps clamp_color_id
          not_differs_self)
  qed
  moreover have "\<exists>obj' m' l'. active_object ctx = Some obj' \<and> edit_bmesh obj' = Some m' \<and>
         find (\<lambda>l. select m' (vert l)) (concat (faces m')) = Some l' \<and>
         differs (vertex_color (scene_props ctx)) (layer_data l' (active_layer m'))"
    if "selection_update_handler ctx \<noteq> ctx"
    using that handler_cases [of ctx] by (auto simp: first_in_faces_find)
  ultimately show ?thesis by blast
qed

theorem handler_mutates_at_most_once_witness:
  "vertex_color (scene_props picking_context) = (1, 1, 1, 1) \<and>
   vertex_color (scene_props (selection_update_handler picking_context)) = red \<and>
   (selection_update_handler ^^ Suc 2) picking_context =
     selection_update_handler picking_context \<and>
   valid_color red \<and>
   \<not> differs (vertex_color (scene_props (selection_update_handler picking_context))) red"
proof -
  let ?obj = "\<lparr>obj_type = ''MESH'', edit_bmesh = Some (bm two_colors_state)\<rparr>"
  have a: "vertex_color (scene_props picking_context) = (1, 1, 1, 1)"
    by (simp add: picking_context_def)
  have b: "vertex_color (scene_props (selection_update_handler picking_context)) = red"
    by (simp add: selection_update_handler_def handler_try_def picking_context_def
        two_colors_state_def corner_def red_def black_def set_vertex_color_def clamp01_def)
  have c: "valid_color red"
    by (simp add: red_def)
  have g: "auto_pick_color (scene_props picking_context) \<and>
    mode picking_context = ''EDIT_MESH'' \<and>
    active_object picking_context = Some ?obj \<and> obj_type ?obj = ''MESH'' \<and>
    edit_bmesh ?obj = Some (bm two_colors_state) \<and>
    color_layers (bm two_colors_state) \<noteq> [] \<and>
    find (\<lambda>l. select (bm two_colors_state) (vert l)) (concat (faces (bm two_colors_state))) =
      Some (corner 1 red) \<and>
    valid_color (layer_data (corner 1 red) (active_layer (bm two_colors_state)))"
    by (simp add: picking_context_def two_colors_state_def corner_def red_def)
  note t = handler_mutates_at_most_once
             [of 2 picking_context ?obj "bm two_colors_state" "corner 1 red"]
  have d: "(selection_update_handler ^^ Suc 2) picking_context =
      selection_update_handler picking_context"
    by (rule conjunct1 [OF t])
  have "\<not> differs (vertex_color (scene_props (selection_update_handler picking_context)))
          (layer_data (corner 1 red) (active_layer (bm two_colors_state)))"
    by (rule mp [OF conjunct1 [OF conjunct2 [OF t]] g])
  then have e: "\<not> differs (vertex_color (scene_props (selection_update_handler picking_context)))
      red"
    by (simp add: corner_def)
  from a b c d e show ?thesis by blast
qed

text \<open>
  C7. When auto-pick is off, or there is no active object, or the mode is not mesh editing,
  or the object is not a mesh, or the \<open>try\<close> block raises, or the mesh has no colour layer,
  the handler returns the context it was given: it is a total function, and nothing
  changes.
\<close>

theorem handler_silent_noop:
  assumes "\<not> auto_pick_color (scene_props ctx) \<or>
           active_object ctx = None \<or>
           mode ctx \<noteq> ''EDIT_MESH'' \<or>
           (\<exists>obj. active_object ctx = Some obj \<and>
              (obj_type obj \<noteq> ''MESH'' \<or>
               (\<exists>e. handler_try obj (scene_props ctx) = Inl e) \<or>
               (\<exists>m. edit_bmesh obj = Some m \<and> color_layers m = [])))"
  shows "selection_update_handler ctx = ctx"
  using assms
  by (auto simp: selection_update_handler_def handler_try_def Let_def
      split: option.splits sum.splits)

theorem handler_silent_noop_witness:
  "auto_pick_color (scene_props no_edit_mesh_context) \<and>
   mode no_edit_mesh_context = ''EDIT_MESH'' \<and>
   active_object no_edit_mesh_context = Some \<lparr>obj_type = ''MESH'', edit_bmesh = None\<rparr> \<and>
   handler_try \<lparr>obj_type = ''MESH'', edit_bmesh = None\<rparr> (scene_props no_edit_mesh_context) =
     Inl ValueError \<and>
   selection_update_handler no_edit_mesh_context = no_edit_mesh_context"
proof -
  let ?obj = "\<lparr>obj_type = ''MESH'', edit_bmesh = None\<rparr>"
  have a: "active_object no_edit_mesh_context = Some ?obj"
    and b: "handler_try ?obj (scene_props no_edit_mesh_context) = Inl ValueError"
    and c: "auto_pick_color (scene_props no_edit_mesh_context)"
    and d: "mode no_edit_mesh_context = ''EDIT_MESH''"
    by (simp_all add: no_edit_mesh_context_def handler_try_def)
  from a b have "\<exists>obj. active_object no_edit_mesh_context = Some obj \<and>
              (obj_type obj \<noteq> ''MESH'' \<or>
               (\<exists>e. handler_try obj (scene_props no_edit_mesh_context) = Inl e) \<or>
               (\<exists>m. edit_bmesh obj = Some m \<and> color_layers m = []))"
    by blast
  then have "selection_update_handler no_edit_mesh_context = no_edit_mesh_context"
    by (intro handler_silent_noop) blast
  with a b c d show ?thesis by simp
qed

section \<open>The range of the current colour\<close>

text \<open>
  C9. The current colour starts as opaque white. Get, Apply and the handler each keep every
  channel within \<open>[0, 1]\<close>. In the example the corner stores a colour outside the range and
  the value assigned is the nearest one inside.
\<close>

theorem vertex_color_stays_valid:
  "vertex_color default_props = (1, 1, 1, 1) \<and>
   valid_color (vertex_color default_props) \<and>
   (valid_color (vertex_color (props s)) \<longrightarrow>
      valid_color (vertex_color (props (snd (get_execute s)))) \<and>
      valid_color (vertex_color (props (snd (apply_execute s))))) \<and>
   (valid_color (vertex_color (scene_props ctx)) \<longrightarrow>
      valid_color (vertex_color (scene_props (selection_update_handler ctx))))"
proof -
  have a: "vertex_color default_props = (1, 1, 1, 1)"
    by (simp add: default_props_def)
  have g: "valid_color (vertex_color (props (snd (get_execute s))))"
    if "valid_color (vertex_color (props s))"
    using that
    by (simp add: get_execute_def Let_def set_vertex_color_simps clamp_color_valid
        split: option.splits)
  have p: "valid_color (vertex_color (props (snd (apply_execute s))))"
    if "valid_color (vertex_color (props s))"
    using that by (simp add: apply_execute_def Let_def)
  have h: "valid_color (vertex_color (scene_props (selection_update_handler ctx)))"
    if "valid_color (vertex_color (scene_props ctx))"
    using that handler_cases [of ctx]
    by (auto simp: set_vertex_color_simps clamp_color_valid)
  from a g p h show ?thesis by simp
qed

theorem vertex_color_stays_valid_witness:
  "valid_color (vertex_color (props overbright_state)) \<and>
   fst (get_execute overbright_state) = Inr (2, - 1, 1 / 2, 1) \<and>
   vertex_color (props (snd (get_execute overbright_state))) = (1, 0, 1 / 2, 1) \<and>
   valid_color (vertex_color (props (snd (get_execute overbright_state)))) \<and>
   valid_color (vertex_color (props (snd (apply_execute overbright_state)))) \<and>
   valid_color (vertex_color (scene_props overbright_context)) \<and>
   vertex_color (scene_props (selection_update_handler overbright_context)) = (1, 0, 1 / 2, 1) \<and>
   valid_color (vertex_color (scene_props (selection_update_handler overbright_context)))"
proof -
  have a: "valid_color (vertex_color (props overbright_state))"
    by (simp add: overbright_state_def default_props_def)
  have b: "fst (get_execute overbright_state) = Inr (2, - 1, 1 / 2, 1)"
    and c: "vertex_color (props (snd (get_execute overbright_state))) = (1, 0, 1 / 2, 1)"
    by (simp_all add: get_execute_def Let_def overbright_state_def corner_def
        set_vertex_color_def clamp01_def)
  have d: "valid_color (vertex_color (scene_props overbright_context))"
    by (simp add: overbright_context_def)
  have e: "vertex_color (scene_props (selection_update_handler overbright_context)) =
      (1, 0, 1 / 2, 1)"
    by (simp add: selection_update_handler_def handler_try_def Let_def overbright_context_def
        overbright_state_def corner_def set_vertex_color_def clamp01_def)
  note t = vertex_color_stays_valid [of overbright_state overbright_context]
  from t a have f: "valid_color (vertex_color (props (snd (get_execute overbright_state))))"
    and g: "valid_color (vertex_color (props (snd (apply_execute overbright_state))))"
    by blast+
  from t d have h:
    "valid_color (vertex_color (scene_props (selection_update_handler overbright_context)))"
    by blast
  from a b c d e f g h show ?thesis by blast
qed

end
